theory Spec2Isabelle
  imports Complex_Main
begin

section \<open>JavaScript values\<close>

text \<open>
  The data that flows through the store and the live feed is JSON: entities, payloads and
  stream events are objects whose properties are primitives, arrays or further objects.
  An object is an association list in which the first binding of a key is the property's
  value; a number is the value of the double the runtime holds.
\<close>

datatype jsval =
    JUndefined
  | JNull
  | JBool bool
  | JNum real
  | JStr string
  | JArr "jsval list"
  | JObj "(string \<times> jsval) list"

type_synonym jsobject = "(string \<times> jsval) list"

text \<open>Truthiness, as \<^verbatim>\<open>if (x)\<close> and \<^verbatim>\<open>x || y\<close> test it.\<close>

fun truthy :: "jsval \<Rightarrow> bool" where
  "truthy JUndefined = False"
| "truthy JNull = False"
| "truthy (JBool b) = b"
| "truthy (JNum x) = (x \<noteq> 0)"
| "truthy (JStr s) = (s \<noteq> [])"
| "truthy (JArr _) = True"
| "truthy (JObj _) = True"

definition js_or :: "jsval \<Rightarrow> jsval \<Rightarrow> jsval" where
  "js_or a b = (if truthy a then a else b)"

text \<open>\<^verbatim>\<open>obj.k\<close> on an object: the property, or \<^verbatim>\<open>undefined\<close> when absent.\<close>

definition obj_prop :: "jsobject \<Rightarrow> string \<Rightarrow> jsval" where
  "obj_prop obj k = (case map_of obj k of None \<Rightarrow> JUndefined | Some v \<Rightarrow> v)"

text \<open>
  \<^verbatim>\<open>a === b\<close>. Primitives compare by value. Objects and arrays compare by reference;
  the objects and arrays of this model are parsed JSON data, where each one is an
  allocation of its own, so two of them are never strictly equal.
\<close>

fun strict_eq :: "jsval \<Rightarrow> jsval \<Rightarrow> bool" where
  "strict_eq JUndefined b = (b = JUndefined)"
| "strict_eq JNull b = (b = JNull)"
| "strict_eq (JBool x) b = (b = JBool x)"
| "strict_eq (JNum x) b = (b = JNum x)"
| "strict_eq (JStr x) b = (b = JStr x)"
| "strict_eq (JArr _) b = False"
| "strict_eq (JObj _) b = False"

text \<open>
  The object literal \<^verbatim>\<open>{ ...a, ...p }\<close>: the keys of \<^verbatim>\<open>a\<close> in their order, each with
  the value \<^verbatim>\<open>p\<close> gives it when \<^verbatim>\<open>p\<close> has the key, followed by the keys only \<^verbatim>\<open>p\<close> has.
\<close>

definition spread :: "jsobject \<Rightarrow> jsobject \<Rightarrow> jsobject" where
  "spread a p =
     map (\<lambda>(k, v). (k, case map_of p k of None \<Rightarrow> v | Some w \<Rightarrow> w)) a
     @ filter (\<lambda>(k, v). map_of a k = None) p"

text \<open>
  Numbers are doubles. A count is an integer-valued double, held here as the integer it
  denotes. Up to \<open>2 ^ 53\<close> in magnitude the doubles are one apart, and the spacing
  doubles with each power of two above: \<open>ulp_at a\<close> is the spacing at magnitude \<open>a\<close>.
  \<^verbatim>\<open>x + y\<close> is the exact sum rounded to the nearest double, a tie going to the double
  with the even significand. (The sum of a finite count and one never overflows.)
\<close>

fun ulp_at :: "nat \<Rightarrow> nat" where
  "ulp_at a = (if a < 2 ^ 53 then 1 else 2 * ulp_at (a div 2))"

declare ulp_at.simps [simp del]

definition round_to_double :: "int \<Rightarrow> int" where
  "round_to_double m =
     (let a = nat \<bar>m\<bar>; u = ulp_at a; q = a div u; r = a mod u;
          q' = (if 2 * r < u \<or> (2 * r = u \<and> even q) then q else q + 1)
      in sgn m * int (q' * u))"

definition js_add :: "int \<Rightarrow> int \<Rightarrow> int" where
  "js_add x y = round_to_double (x + y)"

text \<open>
  An expression that yields an object either hands back the reference it was given or
  allocates a new object. \<open>Same_ref\<close> is the first, \<open>New_obj x\<close> the second, with the
  contents of the new object.
\<close>

datatype 'a returned = Same_ref | New_obj 'a

fun deref :: "'a \<Rightarrow> 'a returned \<Rightarrow> 'a" where
  "deref old Same_ref = old"
| "deref old (New_obj x) = x"

text \<open>Reading a property of \<^verbatim>\<open>undefined\<close> or \<^verbatim>\<open>null\<close> throws.\<close>

datatype js_error = TypeError

section \<open>The store: state, actions, reducer\<close>

text \<open>The counts of the overview are integer-valued doubles.\<close>

record overview =
  towers_count :: int
  cameras_count :: int
  active_alarms_count :: int
  system_status :: string

record state =
  overview :: overview
  towers :: "jsobject list"
  cameras :: "jsobject list"
  alarms :: "jsobject list"
  loading :: "string \<rightharpoonup> bool"
  errors :: "string \<rightharpoonup> string"
  lastUpdate :: "string option"
  connectionStatus :: string

definition initialState :: state where
  "initialState = \<lparr>
     overview = \<lparr> towers_count = 0, cameras_count = 0, active_alarms_count = 0,
                  system_status = ''loading'' \<rparr>,
     towers = [],
     cameras = [],
     alarms = [],
     loading = [''overview'' \<mapsto> False, ''towers'' \<mapsto> False, ''cameras'' \<mapsto> False,
                ''alarms'' \<mapsto> False],
     errors = Map.empty,
     lastUpdate = None,
     connectionStatus = ''disconnected'' \<rparr>"

text \<open>
  Six cases of the reducer read a property of the payload (\<^verbatim>\<open>action.payload.key\<close>,
  \<^verbatim>\<open>action.payload.id\<close>); the other six store the payload as it is.
\<close>

datatype reads_payload =
    In_SET_LOADING
  | In_SET_ERROR
  | In_CLEAR_ERROR
  | In_UPDATE_ALARM
  | In_UPDATE_TOWER
  | In_UPDATE_CAMERA

text \<open>
  An action is an object with a \<^verbatim>\<open>type\<close> tag and a payload. \<open>Other t\<close> is an action whose
  tag \<open>t\<close> is none of the twelve of \<^verbatim>\<open>actionTypes\<close>. \<open>Without_payload c\<close> is an action
  with the tag of a case that reads the payload and with \<^verbatim>\<open>payload: undefined\<close>, as
  \<^verbatim>\<open>updateTower\<close> dispatches when the response carries no \<^verbatim>\<open>data\<close>. What the storing
  cases are given is an element of the type of the field they store it in.
\<close>

datatype action =
    SET_LOADING string bool
  | SET_ERROR string string
  | SET_OVERVIEW overview
  | SET_TOWERS "jsobject list"
  | SET_CAMERAS "jsobject list"
  | SET_ALARMS "jsobject list"
  | ADD_ALARM jsobject
  | UPDATE_ALARM jsobject
  | UPDATE_TOWER jsobject
  | UPDATE_CAMERA jsobject
  | SET_CONNECTION_STATUS string
  | CLEAR_ERROR string
  | Other string
  | Without_payload reads_payload



text \<open>
  The callback of the three \<^verbatim>\<open>UPDATE_*\<close> cases:
  \<^verbatim>\<open>e => e.id === action.payload.id ? { ...e, ...action.payload } : e\<close>.
\<close>

definition merge_by_id :: "jsobject \<Rightarrow> jsobject \<Rightarrow> jsobject returned" where
  "merge_by_id payload e =
     (if strict_eq (obj_prop e ''id'') (obj_prop payload ''id'')
      then New_obj (spread e payload) else Same_ref)"

definition map_merge :: "jsobject \<Rightarrow> jsobject list \<Rightarrow> jsobject list" where
  "map_merge payload es = map (\<lambda>e. deref e (merge_by_id payload e)) es"

text \<open>
  \<^verbatim>\<open>surveillanceReducer(state, action)\<close>. The first argument is what
  \<^verbatim>\<open>new Date().toISOString()\<close> evaluates to during the call. Every case but the default
  builds a new snapshot object; the default returns the snapshot it was given. With
  \<^verbatim>\<open>payload: undefined\<close> the cases that read \<^verbatim>\<open>action.payload.key\<close> throw; the
  \<^verbatim>\<open>UPDATE_*\<close> cases read \<^verbatim>\<open>action.payload.id\<close> in the callback of \<^verbatim>\<open>map\<close>, which runs
  once for each element, so they throw unless the collection is empty.
\<close>

fun surveillanceReducer :: "string \<Rightarrow> state \<Rightarrow> action \<Rightarrow> js_error + state returned" where
  "surveillanceReducer now s (SET_LOADING key v) =
     Inr (New_obj (s\<lparr>loading := (loading s)(key \<mapsto> v)\<rparr>))"
| "surveillanceReducer now s (SET_ERROR key e) =
     Inr (New_obj (s\<lparr>errors := (errors s)(key \<mapsto> e),
                     loading := (loading s)(key \<mapsto> False)\<rparr>))"
| "surveillanceReducer now s (CLEAR_ERROR key) =
     Inr (New_obj (s\<lparr>errors := (errors s)(key := None)\<rparr>))"
| "surveillanceReducer now s (SET_OVERVIEW d) =
     Inr (New_obj (s\<lparr>overview := d, loading := (loading s)(''overview'' \<mapsto> False),
                     lastUpdate := Some now\<rparr>))"
| "surveillanceReducer now s (SET_TOWERS l) =
     Inr (New_obj (s\<lparr>towers := l, loading := (loading s)(''towers'' \<mapsto> False)\<rparr>))"
| "surveillanceReducer now s (SET_CAMERAS l) =
     Inr (New_obj (s\<lparr>cameras := l, loading := (loading s)(''cameras'' \<mapsto> False)\<rparr>))"
| "surveillanceReducer now s (SET_ALARMS l) =
     Inr (New_obj (s\<lparr>alarms := l, loading := (loading s)(''alarms'' \<mapsto> False)\<rparr>))"
| "surveillanceReducer now s (ADD_ALARM a) =
     Inr (New_obj (s\<lparr>alarms := a # alarms s,
                     overview := (overview s)\<lparr>active_alarms_count :=
                       js_add (active_alarms_count (overview s)) 1\<rparr>\<rparr>))"
| "surveillanceReducer now s (UPDATE_ALARM p) =
     Inr (New_obj (s\<lparr>alarms := map_merge p (alarms s)\<rparr>))"
| "surveillanceReducer now s (UPDATE_TOWER p) =
     Inr (New_obj (s\<lparr>towers := map_merge p (towers s)\<rparr>))"
| "surveillanceReducer now s (UPDATE_CAMERA p) =
     Inr (New_obj (s\<lparr>cameras := map_merge p (cameras s)\<rparr>))"
| "surveillanceReducer now s (SET_CONNECTION_STATUS st) =
     Inr (New_obj (s\<lparr>connectionStatus := st\<rparr>))"
| "surveillanceReducer now s (Other t) = Inr Same_ref"
| "surveillanceReducer now s (Without_payload In_SET_LOADING) = Inl TypeError"
| "surveillanceReducer now s (Without_payload In_SET_ERROR) = Inl TypeError"
| "surveillanceReducer now s (Without_payload In_CLEAR_ERROR) = Inl TypeError"
| "surveillanceReducer now s (Without_payload In_UPDATE_ALARM) =
     (if alarms s = [] then Inr (New_obj (s\<lparr>alarms := []\<rparr>)) else Inl TypeError)"
| "surveillanceReducer now s (Without_payload In_UPDATE_TOWER) =
     (if towers s = [] then Inr (New_obj (s\<lparr>towers := []\<rparr>)) else Inl TypeError)"
| "surveillanceReducer now s (Without_payload In_UPDATE_CAMERA) =
     (if cameras s = [] then Inr (New_obj (s\<lparr>cameras := []\<rparr>)) else Inl TypeError)"

text \<open>
  \<^verbatim>\<open>dispatch(action)\<close> of \<^verbatim>\<open>useReducer\<close>: the store's snapshot becomes the one the reducer
  returns. A reducer call that throws commits no snapshot.
\<close>

definition dispatch :: "string \<Rightarrow> state \<Rightarrow> action \<Rightarrow> state" where
  "dispatch now s a =
     (case surveillanceReducer now s a of Inl err \<Rightarrow> s | Inr r \<Rightarrow> deref s r)"

text \<open>The action creators the fetches and mutations go through.\<close>

definition setLoading :: "string \<Rightarrow> state \<Rightarrow> string \<Rightarrow> bool \<Rightarrow> state" where
  "setLoading now s key v = dispatch now s (SET_LOADING key v)"

definition setError :: "string \<Rightarrow> state \<Rightarrow> string \<Rightarrow> string \<Rightarrow> state" where
  "setError now s key e = dispatch now s (SET_ERROR key e)"

definition setConnectionStatus :: "string \<Rightarrow> state \<Rightarrow> string \<Rightarrow> state" where
  "setConnectionStatus now s st = dispatch now s (SET_CONNECTION_STATUS st)"

section \<open>Backend calls, fetches and mutations\<close>

text \<open>
  A call of \<^verbatim>\<open>surveillanceAPI\<close> either rejects with an \<^verbatim>\<open>Error\<close> (network failure, a
  status that is not ok, a body that is not JSON), of which the message is kept, or
  resolves to the envelope \<^verbatim>\<open>{success, data | error}\<close>. The result of each call is an
  argument of the operation that awaits it.
\<close>

record 'd response =
  success :: bool
  resp_error :: "string option"
  data :: 'd

datatype 'd api_result = Threw string | Resolved "'d response"

text \<open>What an asynchronous operation does to its caller.\<close>

datatype 'a outcome = Thrown string | Returned 'a

text \<open>\<^verbatim>\<open>response.error || 'default'\<close>: an absent or empty message gives the default.\<close>

definition or_default :: "string option \<Rightarrow> string \<Rightarrow> string" where
  "or_default e d = (case e of None \<Rightarrow> d | Some m \<Rightarrow> if m = [] then d else m)"

definition fetchTowers :: "string \<Rightarrow> (jsobject list) api_result \<Rightarrow> state \<Rightarrow> state" where
  "fetchTowers now api s =
     (let s1 = setLoading now s ''towers'' True in
      case api of
        Resolved r \<Rightarrow>
          if success r then dispatch now s1 (SET_TOWERS (data r))
          else setError now s1 ''towers'' (or_default (resp_error r) ''Failed to fetch towers'')
      | Threw m \<Rightarrow> setError now s1 ''towers'' m)"

definition fetchCameras :: "string \<Rightarrow> (jsobject list) api_result \<Rightarrow> state \<Rightarrow> state" where
  "fetchCameras now api s =
     (let s1 = setLoading now s ''cameras'' True in
      case api of
        Resolved r \<Rightarrow>
          if success r then dispatch now s1 (SET_CAMERAS (data r))
          else setError now s1 ''cameras'' (or_default (resp_error r) ''Failed to fetch cameras'')
      | Threw m \<Rightarrow> setError now s1 ''cameras'' m)"

text \<open>
  The mutations share one shape: the body of the \<^verbatim>\<open>try\<close> either completes (\<open>Inr\<close>, with
  the response it returns and the store it leaves) or throws (\<open>Inl\<close>, with the message:
  the rejection of the call, or the \<^verbatim>\<open>Error\<close> the body itself throws on
  \<^verbatim>\<open>success: false\<close>); the \<^verbatim>\<open>catch\<close> records the message and throws the error again.
\<close>

definition catch_record ::
  "string \<Rightarrow> state \<Rightarrow> string \<Rightarrow> string + ('d response \<times> state) \<Rightarrow> 'd response outcome \<times> state" where
  "catch_record now s key body =
     (case body of
        Inr (r, s') \<Rightarrow> (Returned r, s')
      | Inl m \<Rightarrow> (Thrown m, setError now s key m))"

definition createTower ::
  "string \<Rightarrow> 'd api_result \<Rightarrow> (jsobject list) api_result \<Rightarrow> state \<Rightarrow> 'd response outcome \<times> state" where
  "createTower now api refetch s =
     catch_record now s ''towers''
       (case api of
          Threw m \<Rightarrow> Inl m
        | Resolved r \<Rightarrow>
            if success r then Inr (r, fetchTowers now refetch s)
            else Inl (or_default (resp_error r) ''Failed to create tower''))"

text \<open>
  \<^verbatim>\<open>updateTower\<close> dispatches \<^verbatim>\<open>response.data\<close> as the payload; \<open>None\<close> is a response
  without \<^verbatim>\<open>data\<close>.
\<close>

definition updateTower ::
  "string \<Rightarrow> (jsobject option) api_result \<Rightarrow> state
     \<Rightarrow> (jsobject option) response outcome \<times> state" where
  "updateTower now api s =
     catch_record now s ''towers''
       (case api of
          Threw m \<Rightarrow> Inl m
        | Resolved r \<Rightarrow>
            if success r
            then Inr (r, dispatch now s
                   (case data r of
                      Some p \<Rightarrow> UPDATE_TOWER p
                    | None \<Rightarrow> Without_payload In_UPDATE_TOWER))
            else Inl (or_default (resp_error r) ''Failed to update tower''))"

definition createCamera ::
  "string \<Rightarrow> 'd api_result \<Rightarrow> (jsobject list) api_result \<Rightarrow> state \<Rightarrow> 'd response outcome \<times> state" where
  "createCamera now api refetch s =
     catch_record now s ''cameras''
       (case api of
          Threw m \<Rightarrow> Inl m
        | Resolved r \<Rightarrow>
            if success r then Inr (r, fetchCameras now refetch s)
            else Inl (or_default (resp_error r) ''Failed to create camera''))"

definition acknowledgeAlarm ::
  "string \<Rightarrow> jsval \<Rightarrow> 'd api_result \<Rightarrow> state \<Rightarrow> 'd response outcome \<times> state" where
  "acknowledgeAlarm now alarmId api s =
     catch_record now s ''alarms''
       (case api of
          Threw m \<Rightarrow> Inl m
        | Resolved r \<Rightarrow>
            if success r
            then Inr (r, dispatch now s
                   (UPDATE_ALARM [(''id'', alarmId), (''status'', JStr ''acknowledged'')]))
            else Inl (or_default (resp_error r) ''Failed to acknowledge alarm''))"

definition resolveAlarm ::
  "string \<Rightarrow> jsval \<Rightarrow> 'd api_result \<Rightarrow> state \<Rightarrow> 'd response outcome \<times> state" where
  "resolveAlarm now alarmId api s =
     catch_record now s ''alarms''
       (case api of
          Threw m \<Rightarrow> Inl m
        | Resolved r \<Rightarrow>
            if success r
            then Inr (r, dispatch now s
                   (UPDATE_ALARM [(''id'', alarmId), (''status'', JStr ''resolved'')]))
            else Inl (or_default (resp_error r) ''Failed to resolve alarm''))"

text \<open>One cycle of the health probe, given the result of \<^verbatim>\<open>healthCheck()\<close>.\<close>

definition checkConnection :: "string \<Rightarrow> 'd api_result \<Rightarrow> state \<Rightarrow> state" where
  "checkConnection now api s =
     (case api of
        Resolved r \<Rightarrow>
          setConnectionStatus now s (if success r then ''connected'' else ''disconnected'')
      | Threw m \<Rightarrow> setConnectionStatus now s ''disconnected'')"

section \<open>The live feed of one camera\<close>

text \<open>The component state of \<^verbatim>\<open>ViamVideoPlayer\<close>, one field for each \<^verbatim>\<open>useState\<close>.\<close>

record session =
  isConnected :: bool
  isLoading :: bool
  error :: jsval
  currentImage :: jsval
  detections :: jsval
  streamUrl :: jsval
  cameraInfo :: jsval

text \<open>What \<^verbatim>\<open>JSON.parse(event.data)\<close> does: it throws, or it yields a value.\<close>

datatype parsed = SyntaxError | Parsed jsval

text \<open>
  \<^verbatim>\<open>data.k\<close> on a parsed value: \<open>None\<close> is the \<^verbatim>\<open>TypeError\<close> of reading a property of
  \<^verbatim>\<open>null\<close> or \<^verbatim>\<open>undefined\<close>. The handler reads \<^verbatim>\<open>error\<close>, \<^verbatim>\<open>image\<close> and \<^verbatim>\<open>detections\<close>,
  which no primitive and no array has; inherited properties are not modelled.
\<close>

fun get_prop :: "jsval \<Rightarrow> string \<Rightarrow> jsval option" where
  "get_prop JUndefined k = None"
| "get_prop JNull k = None"
| "get_prop (JObj kvs) k = Some (obj_prop kvs k)"
| "get_prop (JBool _) k = Some JUndefined"
| "get_prop (JNum _) k = Some JUndefined"
| "get_prop (JStr _) k = Some JUndefined"
| "get_prop (JArr _) k = Some JUndefined"

text \<open>
  \<^verbatim>\<open>eventSource.onmessage\<close>. Whatever the \<^verbatim>\<open>try\<close> block throws is caught and logged, and
  the state setters that ran before the throw keep their effect.
\<close>

definition onmessage :: "parsed \<Rightarrow> session \<Rightarrow> session" where
  "onmessage ev ss =
     (case ev of
        SyntaxError \<Rightarrow> ss
      | Parsed d \<Rightarrow>
          (case get_prop d ''error'' of
             None \<Rightarrow> ss
           | Some e \<Rightarrow>
               if truthy e then ss\<lparr>error := e\<rparr>
               else
                 (case get_prop d ''image'' of
                    None \<Rightarrow> ss
                  | Some img \<Rightarrow>
                      (case get_prop d ''detections'' of
                         None \<Rightarrow> ss\<lparr>currentImage := img\<rparr>
                       | Some dets \<Rightarrow>
                           ss\<lparr>currentImage := img, detections := js_or dets (JArr []),
                              error := JNull\<rparr>))))"

section \<open>Predicates and example data of the properties\<close>

text \<open>Every key with an entry in \<^verbatim>\<open>errors\<close> has its loading flag equal to \<^verbatim>\<open>false\<close>.\<close>

definition error_implies_not_loading :: "state \<Rightarrow> bool" where
  "error_implies_not_loading s = (\<forall>k \<in> dom (errors s). loading s k = Some False)"

text \<open>The action sets a loading flag to \<^verbatim>\<open>true\<close> for a key that has an error entry.\<close>

definition raises_loading_on_error :: "state \<Rightarrow> action \<Rightarrow> bool" where
  "raises_loading_on_error s a =
     (case a of SET_LOADING key v \<Rightarrow> v \<and> errors s key \<noteq> None | _ \<Rightarrow> False)"

text \<open>A sequence of dispatches, each with the clock reading of its reducer call.\<close>

fun dispatch_all :: "state \<Rightarrow> (string \<times> action) list \<Rightarrow> state" where
  "dispatch_all s [] = s"
| "dispatch_all s ((now, a) # rest) = dispatch_all (dispatch now s a) rest"

fun never_raises :: "state \<Rightarrow> (string \<times> action) list \<Rightarrow> bool" where
  "never_raises s [] = True"
| "never_raises s ((now, a) # rest) =
     (\<not> raises_loading_on_error s a \<and> never_raises (dispatch now s a) rest)"

text \<open>
  A backend call fails with message \<open>m\<close>: it rejects with that message, or it resolves
  to \<^verbatim>\<open>success: false\<close> and \<open>m\<close> is the message of the \<^verbatim>\<open>Error\<close> the mutation then throws
  (the reason the backend gives, or the mutation's default).
\<close>

definition fails_with :: "string \<Rightarrow> 'd api_result \<Rightarrow> string \<Rightarrow> bool" where
  "fails_with dflt api m =
     (case api of
        Threw e \<Rightarrow> m = e
      | Resolved r \<Rightarrow> \<not> success r \<and> m = or_default (resp_error r) dflt)"

definition two_alarms :: state where
  "two_alarms = initialState\<lparr>alarms :=
     [[(''id'', JStr ''a1''), (''status'', JStr ''active'')],
      [(''id'', JStr ''a2''), (''status'', JStr ''active'')]]\<rparr>"


definition at_2_53 :: state where
  "at_2_53 = dispatch ''2024-01-01T00:00:00.000Z'' initialState
     (SET_OVERVIEW \<lparr> towers_count = 3, cameras_count = 9,
        active_alarms_count = 9007199254740992, system_status = ''ok'' \<rparr>)"

definition refused :: "unit api_result" where
  "refused = Resolved \<lparr> success = False, resp_error = Some ''name taken'', data = () \<rparr>"

definition live_session :: session where
  "live_session = \<lparr> isConnected = True, isLoading = False, error = JNull,
     currentImage = JStr ''data:image/jpeg;base64,AAAA'',
     detections = JArr [JObj [(''class_name'', JStr ''person''), (''confidence'', JNum 0.9)]],
     streamUrl = JNull, cameraInfo = JNull \<rparr>"

section \<open>Properties of the reducer\<close>

lemma dispatch_simps:
  "dispatch now s (SET_LOADING key v) = s\<lparr>loading := (loading s)(key \<mapsto> v)\<rparr>"
  "dispatch now s (SET_ERROR key e) =
     s\<lparr>errors := (errors s)(key \<mapsto> e), loading := (loading s)(key \<mapsto> False)\<rparr>"
  "dispatch now s (CLEAR_ERROR key) = s\<lparr>errors := (errors s)(key := None)\<rparr>"
  "dispatch now s (SET_OVERVIEW d) =
     s\<lparr>overview := d, loading := (loading s)(''overview'' \<mapsto> False), lastUpdate := Some now\<rparr>"
  "dispatch now s (SET_TOWERS l) = s\<lparr>towers := l, loading := (loading s)(''towers'' \<mapsto> False)\<rparr>"
  "dispatch now s (SET_CAMERAS l) = s\<lparr>cameras := l, loading := (loading s)(''cameras'' \<mapsto> False)\<rparr>"
  "dispatch now s (SET_ALARMS l) = s\<lparr>alarms := l, loading := (loading s)(''alarms'' \<mapsto> False)\<rparr>"
  "dispatch now s (ADD_ALARM a) =
     s\<lparr>alarms := a # alarms s,
       overview := (overview s)\<lparr>active_alarms_count :=
         js_add (active_alarms_count (overview s)) 1\<rparr>\<rparr>"
  "dispatch now s (UPDATE_ALARM p) = s\<lparr>alarms := map_merge p (alarms s)\<rparr>"
  "dispatch now s (UPDATE_TOWER p) = s\<lparr>towers := map_merge p (towers s)\<rparr>"
  "dispatch now s (UPDATE_CAMERA p) = s\<lparr>cameras := map_merge p (cameras s)\<rparr>"
  "dispatch now s (SET_CONNECTION_STATUS st) = s\<lparr>connectionStatus := st\<rparr>"
  "dispatch now s (Other t) = s"
  by (simp_all add: dispatch_def)

lemma dispatch_Without_payload: "dispatch now s (Without_payload c) = s"
  by (cases c; cases s) (simp_all add: dispatch_def)

subsection \<open>Full replacement and the error map\<close>

text \<open>
  C1, as the spec states it, fails: a state that holds an error for \<^verbatim>\<open>towers\<close> still
  holds it after \<^verbatim>\<open>SET_TOWERS\<close>.
\<close>

theorem set_towers_keeps_error_counterexample:
  "errors
     (dispatch ''2024-01-01T00:00:30.000Z''
        (dispatch ''2024-01-01T00:00:00.000Z'' initialState
           (SET_ERROR ''towers'' ''db unreachable''))
        (SET_TOWERS [])) ''towers'' = Some ''db unreachable''"
  by (simp add: dispatch_simps initialState_def)

text \<open>
  C1, amended. \<^verbatim>\<open>SET_TOWERS\<close>, \<^verbatim>\<open>SET_CAMERAS\<close> and \<^verbatim>\<open>SET_ALARMS\<close> leave the error map
  as it was, so an entry for the key stays; what they clear is the key's loading flag.
\<close>

theorem full_replace_keeps_errors:
  "errors (dispatch now s (SET_TOWERS l)) = errors s
   \<and> errors (dispatch now s (SET_CAMERAS l)) = errors s
   \<and> errors (dispatch now s (SET_ALARMS l)) = errors s
   \<and> loading (dispatch now s (SET_TOWERS l)) ''towers'' = Some False
   \<and> loading (dispatch now s (SET_CAMERAS l)) ''cameras'' = Some False
   \<and> loading (dispatch now s (SET_ALARMS l)) ''alarms'' = Some False"
  by (simp add: dispatch_simps)

subsection \<open>Errors and loading flags\<close>

lemma inv_init: "error_implies_not_loading initialState"
  by (simp add: error_implies_not_loading_def initialState_def)

lemma inv_step:
  "error_implies_not_loading s \<Longrightarrow> \<not> raises_loading_on_error s a
   \<Longrightarrow> error_implies_not_loading (dispatch now s a)"
  by (cases a) (auto simp: error_implies_not_loading_def raises_loading_on_error_def
      dispatch_simps dispatch_Without_payload dom_def split: if_splits)

lemma inv_break:
  "raises_loading_on_error s a \<Longrightarrow> \<not> error_implies_not_loading (dispatch now s a)"
  by (cases a) (auto simp: error_implies_not_loading_def raises_loading_on_error_def
      dispatch_simps dispatch_Without_payload dom_def split: if_splits)

lemma inv_all:
  "error_implies_not_loading s \<Longrightarrow> never_raises s acts
   \<Longrightarrow> error_implies_not_loading (dispatch_all s acts)"
  by (induction s acts rule: dispatch_all.induct) (auto simp: inv_step)

text \<open>
  C2, as the spec states it, fails: after a failed fetch has recorded an error for
  \<^verbatim>\<open>towers\<close>, the \<^verbatim>\<open>SET_LOADING\<close> of the next fetch sets \<^verbatim>\<open>loading.towers\<close> to \<^verbatim>\<open>true\<close>
  while the entry is still there.
\<close>

theorem loading_raised_on_error_counterexample:
  "\<not> error_implies_not_loading
     (dispatch ''2024-01-01T00:00:30.000Z''
        (dispatch ''2024-01-01T00:00:00.000Z'' initialState
           (SET_ERROR ''towers'' ''db unreachable''))
        (SET_LOADING ''towers'' True))"
  by (simp add: error_implies_not_loading_def dispatch_simps initialState_def)

text \<open>
  C2, amended. The predicate holds in the initial state and every command preserves it
  except \<^verbatim>\<open>SET_LOADING\<close> with value \<^verbatim>\<open>true\<close> for a key that has an error entry, which
  breaks it; so it holds after every sequence of dispatches from the initial state in
  which no such \<^verbatim>\<open>SET_LOADING\<close> occurs.
\<close>

theorem error_implies_not_loading_preserved:
  "error_implies_not_loading initialState
   \<and> (error_implies_not_loading s \<and> \<not> raises_loading_on_error s a \<longrightarrow>
        error_implies_not_loading (dispatch now s a))
   \<and> (raises_loading_on_error s a \<longrightarrow> \<not> error_implies_not_loading (dispatch now s a))
   \<and> (never_raises initialState acts \<longrightarrow>
        error_implies_not_loading (dispatch_all initialState acts))"
  using inv_init inv_step inv_break inv_all by blast

theorem error_implies_not_loading_preserved_witness:
  "error_implies_not_loading initialState
   \<and> \<not> raises_loading_on_error initialState (SET_ERROR ''towers'' ''db unreachable'')
   \<and> error_implies_not_loading
       (dispatch ''2024-01-01T00:00:00.000Z'' initialState
          (SET_ERROR ''towers'' ''db unreachable''))
   \<and> never_raises initialState
       [(''2024-01-01T00:00:00.000Z'', SET_LOADING ''towers'' True),
        (''2024-01-01T00:00:01.000Z'', SET_ERROR ''towers'' ''db unreachable''),
        (''2024-01-01T00:00:02.000Z'', CLEAR_ERROR ''towers''),
        (''2024-01-01T00:00:03.000Z'', SET_LOADING ''towers'' True),
        (''2024-01-01T00:00:04.000Z'', SET_TOWERS [])]
   \<and> error_implies_not_loading (dispatch_all initialState
       [(''2024-01-01T00:00:00.000Z'', SET_LOADING ''towers'' True),
        (''2024-01-01T00:00:01.000Z'', SET_ERROR ''towers'' ''db unreachable''),
        (''2024-01-01T00:00:02.000Z'', CLEAR_ERROR ''towers''),
        (''2024-01-01T00:00:03.000Z'', SET_LOADING ''towers'' True),
        (''2024-01-01T00:00:04.000Z'', SET_TOWERS [])])
   \<and> raises_loading_on_error
       (dispatch ''2024-01-01T00:00:00.000Z'' initialState
          (SET_ERROR ''cameras'' ''timeout''))
       (SET_LOADING ''cameras'' True)
   \<and> \<not> error_implies_not_loading
       (dispatch ''2024-01-01T00:00:10.000Z''
          (dispatch ''2024-01-01T00:00:00.000Z'' initialState
             (SET_ERROR ''cameras'' ''timeout''))
          (SET_LOADING ''cameras'' True))"
  using error_implies_not_loading_preserved [of initialState
      "SET_ERROR ''towers'' ''db unreachable''" "''2024-01-01T00:00:00.000Z''"
      "[(''2024-01-01T00:00:00.000Z'', SET_LOADING ''towers'' True),
        (''2024-01-01T00:00:01.000Z'', SET_ERROR ''towers'' ''db unreachable''),
        (''2024-01-01T00:00:02.000Z'', CLEAR_ERROR ''towers''),
        (''2024-01-01T00:00:03.000Z'', SET_LOADING ''towers'' True),
        (''2024-01-01T00:00:04.000Z'', SET_TOWERS [])]"]
    error_implies_not_loading_preserved [of
      "dispatch ''2024-01-01T00:00:00.000Z'' initialState (SET_ERROR ''cameras'' ''timeout'')"
      "SET_LOADING ''cameras'' True" "''2024-01-01T00:00:10.000Z''" "[]"]
  by (simp add: raises_loading_on_error_def dispatch_simps initialState_def)

subsection \<open>Alarms\<close>

lemma ulp_at_small: "a < 2 ^ 53 \<Longrightarrow> ulp_at a = 1"
  by (subst ulp_at.simps) simp

lemma ulp_at_next: "2 ^ 53 \<le> a \<Longrightarrow> a < 2 ^ 54 \<Longrightarrow> ulp_at a = 2"
  by (subst ulp_at.simps) (simp add: ulp_at_small)

lemma round_small: "\<bar>m\<bar> < 2 ^ 53 \<Longrightarrow> round_to_double m = m"
proof -
  assume "\<bar>m\<bar> < 2 ^ 53"
  then have "nat \<bar>m\<bar> < 2 ^ 53" by simp
  then have u: "ulp_at (nat \<bar>m\<bar>) = 1" by (rule ulp_at_small)
  show ?thesis
    by (simp only: round_to_double_def Let_def u) (simp add: sgn_if)
qed

lemma round_2_53: "round_to_double (2 ^ 53) = 2 ^ 53"
  by (simp add: round_to_double_def Let_def ulp_at_next)

lemma js_add_one_exact:
  assumes "- (2 ^ 53) \<le> n" "n < 2 ^ 53"
  shows "js_add n 1 = n + 1"
proof (cases "n + 1 = 2 ^ 53")
  case True
  then show ?thesis using round_2_53 by (simp add: js_add_def)
next
  case False
  with assms have "\<bar>n + 1\<bar> < 2 ^ 53" by simp
  then show ?thesis by (simp add: js_add_def round_small)
qed

text \<open>
  C3, as the spec states it, fails for the count: the addition is one of doubles. An
  overview fetched with \<^verbatim>\<open>active_alarms_count\<close> equal to \<open>2 ^ 53\<close> (9007199254740992) is
  stored as it is, and \<^verbatim>\<open>ADD_ALARM\<close> then leaves the count where it was, while the list
  grows by one.
\<close>

theorem add_alarm_count_at_2_53_counterexample:
  "active_alarms_count (overview at_2_53) = 9007199254740992
   \<and> active_alarms_count (overview
        (dispatch ''2024-01-01T00:00:30.000Z'' at_2_53 (ADD_ALARM [(''id'', JStr ''a1'')])))
       = 9007199254740992
   \<and> active_alarms_count (overview
        (dispatch ''2024-01-01T00:00:30.000Z'' at_2_53 (ADD_ALARM [(''id'', JStr ''a1'')])))
       \<noteq> active_alarms_count (overview at_2_53) + 1
   \<and> length (alarms
        (dispatch ''2024-01-01T00:00:30.000Z'' at_2_53 (ADD_ALARM [(''id'', JStr ''a1'')])))
       = length (alarms at_2_53) + 1"
  by (simp add: at_2_53_def dispatch_simps js_add_def round_to_double_def Let_def ulp_at_next)

text \<open>
  C3, amended. \<^verbatim>\<open>ADD_ALARM\<close> puts the alarm at the front of the list, which grows by
  exactly one, for every state and every alarm, also one whose id the list already has
  (the store does not deduplicate). When \<^verbatim>\<open>overview.active_alarms_count\<close> is an integer
  \<open>n\<close> with \<open>- 2 ^ 53 \<le> n < 2 ^ 53\<close>, the count of the new state is \<open>n + 1\<close>.
\<close>

theorem add_alarm_prepends_and_counts:
  "alarms (dispatch now s (ADD_ALARM a)) = a # alarms s
   \<and> length (alarms (dispatch now s (ADD_ALARM a))) = length (alarms s) + 1
   \<and> (- (2 ^ 53) \<le> active_alarms_count (overview s)
        \<and> active_alarms_count (overview s) < 2 ^ 53 \<longrightarrow>
      active_alarms_count (overview (dispatch now s (ADD_ALARM a)))
        = active_alarms_count (overview s) + 1)"
  by (simp add: dispatch_simps js_add_one_exact)

theorem add_alarm_prepends_and_counts_witness:
  "- (2 ^ 53) \<le> active_alarms_count (overview two_alarms)
   \<and> active_alarms_count (overview two_alarms) < 2 ^ 53
   \<and> active_alarms_count (overview two_alarms) = 0
   \<and> active_alarms_count (overview
        (dispatch ''2024-01-01T00:00:00.000Z'' two_alarms
           (ADD_ALARM [(''id'', JStr ''a1''), (''status'', JStr ''active'')]))) = 1
   \<and> alarms (dispatch ''2024-01-01T00:00:00.000Z'' two_alarms
        (ADD_ALARM [(''id'', JStr ''a1''), (''status'', JStr ''active'')]))
     = [[(''id'', JStr ''a1''), (''status'', JStr ''active'')],
        [(''id'', JStr ''a1''), (''status'', JStr ''active'')],
        [(''id'', JStr ''a2''), (''status'', JStr ''active'')]]
   \<and> length (alarms (dispatch ''2024-01-01T00:00:00.000Z'' two_alarms
        (ADD_ALARM [(''id'', JStr ''a1''), (''status'', JStr ''active'')]))) = 3"
  using add_alarm_prepends_and_counts [of "''2024-01-01T00:00:00.000Z''" two_alarms
      "[(''id'', JStr ''a1''), (''status'', JStr ''active'')]"]
  by (simp add: two_alarms_def initialState_def)

lemma map_of_spread: "map_of (spread a p) = map_of a ++ map_of p"
proof (rule ext)
  fix k
  have kept: "map_of (map (\<lambda>(k, v). (k, case map_of p k of None \<Rightarrow> v | Some w \<Rightarrow> w)) a) k
        = (case map_of a k of None \<Rightarrow> None
           | Some v \<Rightarrow> Some (case map_of p k of None \<Rightarrow> v | Some w \<Rightarrow> w))"
    by (induction a) (auto split: option.splits)
  have added: "map_of a k = None \<Longrightarrow>
      map_of (filter (\<lambda>(k, v). map_of a k = None) p) k = map_of p k"
    by (induction p) auto
  show "map_of (spread a p) k = (map_of a ++ map_of p) k"
    by (cases "map_of a k") (auto simp: spread_def map_add_def kept added split: option.splits)
qed

lemma map_merge_nth:
  "n < length es \<Longrightarrow> map_merge p es ! n = deref (es ! n) (merge_by_id p (es ! n))"
  by (simp add: map_merge_def)

lemma map_merge_none:
  "\<forall>e \<in> set es. \<not> strict_eq (obj_prop e ''id'') (obj_prop p ''id'') \<Longrightarrow> map_merge p es = es"
  by (induction es) (auto simp: map_merge_def merge_by_id_def)

text \<open>
  C4. \<^verbatim>\<open>UPDATE_ALARM\<close> with payload \<open>p\<close> keeps the length of the list and decides each
  position by the id alone. An alarm whose id is strictly equal to \<open>p\<close>'s is replaced by
  a new object, the shallow merge of \<open>p\<close> into it (every key of \<open>p\<close> with \<open>p\<close>'s value, every
  other key as the alarm had it); where ids are unique that is one alarm. Every other
  alarm stays the same reference. When no alarm has that id the list is unchanged element
  by element, and a snapshot is returned all the same. Nothing but \<^verbatim>\<open>alarms\<close> changes.
\<close>

theorem update_alarm_merges_by_id:
  "length (alarms (dispatch now s (UPDATE_ALARM p))) = length (alarms s)
   \<and> (\<forall>n < length (alarms s).
        (strict_eq (obj_prop (alarms s ! n) ''id'') (obj_prop p ''id'') \<longrightarrow>
           merge_by_id p (alarms s ! n) = New_obj (spread (alarms s ! n) p)
           \<and> alarms (dispatch now s (UPDATE_ALARM p)) ! n = spread (alarms s ! n) p
           \<and> map_of (spread (alarms s ! n) p) = map_of (alarms s ! n) ++ map_of p)
        \<and> (\<not> strict_eq (obj_prop (alarms s ! n) ''id'') (obj_prop p ''id'') \<longrightarrow>
           merge_by_id p (alarms s ! n) = Same_ref
           \<and> alarms (dispatch now s (UPDATE_ALARM p)) ! n = alarms s ! n))
   \<and> ((\<forall>e \<in> set (alarms s). \<not> strict_eq (obj_prop e ''id'') (obj_prop p ''id'')) \<longrightarrow>
        alarms (dispatch now s (UPDATE_ALARM p)) = alarms s)
   \<and> (\<exists>s'. surveillanceReducer now s (UPDATE_ALARM p) = Inr (New_obj s'))
   \<and> (dispatch now s (UPDATE_ALARM p))\<lparr>alarms := alarms s\<rparr> = s"
proof -
  have len: "length (alarms (dispatch now s (UPDATE_ALARM p))) = length (alarms s)"
    by (simp add: dispatch_simps map_merge_def)
  have each: "\<forall>n < length (alarms s).
        (strict_eq (obj_prop (alarms s ! n) ''id'') (obj_prop p ''id'') \<longrightarrow>
           merge_by_id p (alarms s ! n) = New_obj (spread (alarms s ! n) p)
           \<and> alarms (dispatch now s (UPDATE_ALARM p)) ! n = spread (alarms s ! n) p
           \<and> map_of (spread (alarms s ! n) p) = map_of (alarms s ! n) ++ map_of p)
        \<and> (\<not> strict_eq (obj_prop (alarms s ! n) ''id'') (obj_prop p ''id'') \<longrightarrow>
           merge_by_id p (alarms s ! n) = Same_ref
           \<and> alarms (dispatch now s (UPDATE_ALARM p)) ! n = alarms s ! n)"
    by (simp add: dispatch_simps map_merge_nth merge_by_id_def map_of_spread)
  have none: "(\<forall>e \<in> set (alarms s). \<not> strict_eq (obj_prop e ''id'') (obj_prop p ''id'')) \<longrightarrow>
        alarms (dispatch now s (UPDATE_ALARM p)) = alarms s"
    by (simp add: dispatch_simps map_merge_none)
  have total: "\<exists>s'. surveillanceReducer now s (UPDATE_ALARM p) = Inr (New_obj s')"
    by simp
  have frame: "(dispatch now s (UPDATE_ALARM p))\<lparr>alarms := alarms s\<rparr> = s"
    by (simp add: dispatch_simps)
  from len each none total frame show ?thesis by blast
qed

theorem update_alarm_merges_by_id_witness:
  "alarms (dispatch ''2024-01-01T00:00:00.000Z'' two_alarms
      (UPDATE_ALARM [(''id'', JStr ''a1''), (''status'', JStr ''acknowledged'')]))
   = [[(''id'', JStr ''a1''), (''status'', JStr ''acknowledged'')],
      [(''id'', JStr ''a2''), (''status'', JStr ''active'')]]
   \<and> merge_by_id [(''id'', JStr ''a1''), (''status'', JStr ''acknowledged'')]
        [(''id'', JStr ''a2''), (''status'', JStr ''active'')] = Same_ref
   \<and> alarms (dispatch ''2024-01-01T00:00:00.000Z'' two_alarms
      (UPDATE_ALARM [(''id'', JStr ''a9''), (''status'', JStr ''acknowledged'')]))
     = alarms two_alarms"
  using update_alarm_merges_by_id [of "''2024-01-01T00:00:00.000Z''" two_alarms
      "[(''id'', JStr ''a1''), (''status'', JStr ''acknowledged'')]"]
    update_alarm_merges_by_id [of "''2024-01-01T00:00:00.000Z''" two_alarms
      "[(''id'', JStr ''a9''), (''status'', JStr ''acknowledged'')]"]
  by (simp add: two_alarms_def dispatch_simps map_merge_def merge_by_id_def obj_prop_def
      spread_def)

subsection \<open>Idempotence of full replacement\<close>

text \<open>
  C8. \<^verbatim>\<open>SET_TOWERS\<close> with a list \<open>l\<close> is idempotent on the towers collection: after one
  application and after two the collection is \<open>l\<close>, and \<^verbatim>\<open>loading.towers\<close> is false both
  times.
\<close>

theorem set_towers_twice:
  "towers (dispatch now s (SET_TOWERS l)) = l
   \<and> towers (dispatch now' (dispatch now s (SET_TOWERS l)) (SET_TOWERS l)) = l
   \<and> loading (dispatch now s (SET_TOWERS l)) ''towers'' = Some False
   \<and> loading (dispatch now' (dispatch now s (SET_TOWERS l)) (SET_TOWERS l)) ''towers''
       = Some False"
  by (simp add: dispatch_simps)

subsection \<open>Totality and purity\<close>




section \<open>Properties of the mutations and of the health probe\<close>

lemma catch_record_Inl:
  "catch_record now s key (Inl m) = (Thrown m, setError now s key m)"
  by (simp add: catch_record_def)

lemma errors_setError: "errors (setError now s key m) key = Some m"
  by (simp add: setError_def dispatch_simps)

lemma createTower_fails:
  "fails_with ''Failed to create tower'' api m \<Longrightarrow>
   createTower now api refetch s = (Thrown m, setError now s ''towers'' m)"
  by (cases api) (auto simp: fails_with_def createTower_def catch_record_Inl)

lemma updateTower_fails:
  "fails_with ''Failed to update tower'' api m \<Longrightarrow>
   updateTower now api s = (Thrown m, setError now s ''towers'' m)"
  by (cases api) (auto simp: fails_with_def updateTower_def catch_record_Inl)

lemma createCamera_fails:
  "fails_with ''Failed to create camera'' api m \<Longrightarrow>
   createCamera now api refetch s = (Thrown m, setError now s ''cameras'' m)"
  by (cases api) (auto simp: fails_with_def createCamera_def catch_record_Inl)

lemma acknowledgeAlarm_fails:
  "fails_with ''Failed to acknowledge alarm'' api m \<Longrightarrow>
   acknowledgeAlarm now alarmId api s = (Thrown m, setError now s ''alarms'' m)"
  by (cases api) (auto simp: fails_with_def acknowledgeAlarm_def catch_record_Inl)

lemma resolveAlarm_fails:
  "fails_with ''Failed to resolve alarm'' api m \<Longrightarrow>
   resolveAlarm now alarmId api s = (Thrown m, setError now s ''alarms'' m)"
  by (cases api) (auto simp: fails_with_def resolveAlarm_def catch_record_Inl)

text \<open>
  C6. When the backend call of a mutation rejects, or resolves to \<^verbatim>\<open>success: false\<close>, the
  mutation throws to its caller, and the message of the error it throws is the entry of
  the store's error map under the key of the resource: \<^verbatim>\<open>towers\<close> for \<^verbatim>\<open>createTower\<close> and
  \<^verbatim>\<open>updateTower\<close>, \<^verbatim>\<open>cameras\<close> for \<^verbatim>\<open>createCamera\<close>, \<^verbatim>\<open>alarms\<close> for \<^verbatim>\<open>acknowledgeAlarm\<close> and
  \<^verbatim>\<open>resolveAlarm\<close>.
\<close>

theorem mutation_failure_thrown_and_recorded:
  "(fails_with ''Failed to create tower'' api m \<longrightarrow>
      fst (createTower now api refetch s) = Thrown m
      \<and> errors (snd (createTower now api refetch s)) ''towers'' = Some m)
   \<and> (fails_with ''Failed to update tower'' api_t m \<longrightarrow>
      fst (updateTower now api_t s) = Thrown m
      \<and> errors (snd (updateTower now api_t s)) ''towers'' = Some m)
   \<and> (fails_with ''Failed to create camera'' api m \<longrightarrow>
      fst (createCamera now api refetch s) = Thrown m
      \<and> errors (snd (createCamera now api refetch s)) ''cameras'' = Some m)
   \<and> (fails_with ''Failed to acknowledge alarm'' api m \<longrightarrow>
      fst (acknowledgeAlarm now alarmId api s) = Thrown m
      \<and> errors (snd (acknowledgeAlarm now alarmId api s)) ''alarms'' = Some m)
   \<and> (fails_with ''Failed to resolve alarm'' api m \<longrightarrow>
      fst (resolveAlarm now alarmId api s) = Thrown m
      \<and> errors (snd (resolveAlarm now alarmId api s)) ''alarms'' = Some m)"
  by (simp add: createTower_fails updateTower_fails createCamera_fails
      acknowledgeAlarm_fails resolveAlarm_fails errors_setError)

theorem mutation_failure_thrown_and_recorded_witness:
  "fails_with ''Failed to create tower'' refused ''name taken''
   \<and> fst (createTower ''2024-01-01T00:00:00.000Z'' refused (Threw ''unused'') initialState)
       = Thrown ''name taken''
   \<and> errors (snd (createTower ''2024-01-01T00:00:00.000Z'' refused (Threw ''unused'')
        initialState)) ''towers'' = Some ''name taken''
   \<and> fails_with ''Failed to acknowledge alarm'' (Threw ''Failed to fetch'' :: unit api_result)
       ''Failed to fetch''
   \<and> fst (acknowledgeAlarm ''2024-01-01T00:00:00.000Z'' (JStr ''a7'')
        (Threw ''Failed to fetch'' :: unit api_result) initialState) = Thrown ''Failed to fetch''
   \<and> errors (snd (acknowledgeAlarm ''2024-01-01T00:00:00.000Z'' (JStr ''a7'')
        (Threw ''Failed to fetch'' :: unit api_result) initialState)) ''alarms''
       = Some ''Failed to fetch''"
  using mutation_failure_thrown_and_recorded [of refused "''name taken''"
      "''2024-01-01T00:00:00.000Z''" "Threw ''unused''" initialState "Threw ''unused''"
      "JStr ''a7''"]
    mutation_failure_thrown_and_recorded [of "Threw ''Failed to fetch'' :: unit api_result"
      "''Failed to fetch''" "''2024-01-01T00:00:00.000Z''" "Threw ''unused''" initialState
      "Threw ''unused''" "JStr ''a7''"]
  by (simp add: fails_with_def refused_def or_default_def)

text \<open>
  C7. After a cycle of the health probe the connection status is \<^verbatim>\<open>connected\<close> exactly
  when the call resolved to an envelope with \<^verbatim>\<open>success: true\<close>; a call that rejects and
  an envelope without success both give \<^verbatim>\<open>disconnected\<close>.
\<close>

theorem probe_sets_connection_status:
  "connectionStatus (checkConnection now (Threw m) s) = ''disconnected''
   \<and> connectionStatus (checkConnection now (Resolved r) s)
       = (if success r then ''connected'' else ''disconnected'')
   \<and> (connectionStatus (checkConnection now api s) = ''connected'')
       = (\<exists>r. api = Resolved r \<and> success r)
   \<and> (connectionStatus (checkConnection now api s) = ''disconnected'')
       = (\<not> (\<exists>r. api = Resolved r \<and> success r))"
  by (cases api) (auto simp: checkConnection_def setConnectionStatus_def dispatch_simps)

section \<open>Properties of the live feed\<close>

text \<open>
  C5, as the spec states it, fails for an empty message: \<^verbatim>\<open>{"error": ""}\<close> is handled as
  a frame, so the error is cleared and the last good image is replaced by \<^verbatim>\<open>undefined\<close>.
\<close>

theorem empty_error_message_counterexample:
  "error (onmessage (Parsed (JObj [(''error'', JStr [])])) live_session) \<noteq> JStr []
   \<and> currentImage (onmessage (Parsed (JObj [(''error'', JStr [])])) live_session)
       \<noteq> currentImage live_session
   \<and> error (onmessage (Parsed (JObj [(''error'', JStr [])])) live_session) = JNull
   \<and> currentImage (onmessage (Parsed (JObj [(''error'', JStr [])])) live_session) = JUndefined
   \<and> currentImage live_session = JStr ''data:image/jpeg;base64,AAAA''"
  by (simp add: onmessage_def obj_prop_def live_session_def js_or_def)

text \<open>
  C5, amended. An event that parses to an object whose \<^verbatim>\<open>error\<close> is truthy (a message
  that is not empty) sets the session's error to it and changes nothing else, so the
  current frame stays. An event that parses to an object whose \<^verbatim>\<open>error\<close> is absent or
  falsy sets the current frame to \<^verbatim>\<open>image\<close>, the detection set to \<^verbatim>\<open>detections\<close> (to the
  empty list when that is absent or falsy) and the error to \<^verbatim>\<open>null\<close>. An event that does
  not parse changes nothing.
\<close>

theorem onmessage_cases:
  "(truthy (obj_prop kvs ''error'') \<longrightarrow>
      onmessage (Parsed (JObj kvs)) ss = ss\<lparr>error := obj_prop kvs ''error''\<rparr>)
   \<and> (\<not> truthy (obj_prop kvs ''error'') \<longrightarrow>
      onmessage (Parsed (JObj kvs)) ss =
        ss\<lparr>currentImage := obj_prop kvs ''image'',
           detections := js_or (obj_prop kvs ''detections'') (JArr []),
           error := JNull\<rparr>)
   \<and> (msg \<noteq> [] \<longrightarrow>
      onmessage (Parsed (JObj [(''error'', JStr msg)])) ss = ss\<lparr>error := JStr msg\<rparr>)
   \<and> onmessage (Parsed (JObj [(''image'', img), (''detections'', JArr ds)])) ss =
        ss\<lparr>currentImage := img, detections := JArr ds, error := JNull\<rparr>
   \<and> onmessage SyntaxError ss = ss"
  by (simp add: onmessage_def obj_prop_def js_or_def)

theorem onmessage_cases_witness:
  "onmessage (Parsed (JObj [(''error'', JStr ''decode failure'')])) live_session
     = live_session\<lparr>error := JStr ''decode failure''\<rparr>
   \<and> currentImage (onmessage (Parsed (JObj [(''error'', JStr ''decode failure'')])) live_session)
     = JStr ''data:image/jpeg;base64,AAAA''
   \<and> onmessage (Parsed (JObj [(''image'', JStr ''data:image/jpeg;base64,BBBB''),
                               (''detections'', JArr [])]))
        (live_session\<lparr>error := JStr ''decode failure''\<rparr>)
     = live_session\<lparr>currentImage := JStr ''data:image/jpeg;base64,BBBB'',
                     detections := JArr [], error := JNull\<rparr>"
  using onmessage_cases [of "[(''error'', JStr ''decode failure'')]" live_session
      "''decode failure''" JNull "[]"]
    onmessage_cases [of "[(''image'', JStr ''data:image/jpeg;base64,BBBB''),
                               (''detections'', JArr [])]"
        "live_session\<lparr>error := JStr ''decode failure''\<rparr>" "''x''" JNull "[]"]
  by (simp add: obj_prop_def js_or_def live_session_def)

text \<open>
  C10. An event that parses to an object with neither an \<^verbatim>\<open>error\<close> nor a \<^verbatim>\<open>detections\<close>
  field replaces the detection set by the empty list, sets the current frame to the
  object's \<^verbatim>\<open>image\<close> and clears the error.
\<close>

theorem image_only_clears_detections:
  "map_of kvs ''error'' = None \<Longrightarrow> map_of kvs ''detections'' = None \<Longrightarrow>
   onmessage (Parsed (JObj kvs)) ss =
     ss\<lparr>currentImage := obj_prop kvs ''image'', detections := JArr [], error := JNull\<rparr>"
  by (simp add: onmessage_def obj_prop_def js_or_def)

theorem image_only_clears_detections_witness:
  "map_of [(''image'', JStr ''data:image/jpeg;base64,BBBB'')] ''error'' = None
   \<and> map_of [(''image'', JStr ''data:image/jpeg;base64,BBBB'')] ''detections'' = None
   \<and> detections (onmessage (Parsed (JObj [(''image'', JStr ''data:image/jpeg;base64,BBBB'')]))
        (live_session\<lparr>error := JStr ''decode failure''\<rparr>)) = JArr []
   \<and> currentImage (onmessage (Parsed (JObj [(''image'', JStr ''data:image/jpeg;base64,BBBB'')]))
        (live_session\<lparr>error := JStr ''decode failure''\<rparr>)) = JStr ''data:image/jpeg;base64,BBBB''
   \<and> error (onmessage (Parsed (JObj [(''image'', JStr ''data:image/jpeg;base64,BBBB'')]))
        (live_session\<lparr>error := JStr ''decode failure''\<rparr>)) = JNull
   \<and> detections (live_session\<lparr>error := JStr ''decode failure''\<rparr>) \<noteq> JArr []"
  using image_only_clears_detections [of "[(''image'', JStr ''data:image/jpeg;base64,BBBB'')]"
      "live_session\<lparr>error := JStr ''decode failure''\<rparr>"]
  by (simp add: obj_prop_def live_session_def)

end
